theory Spec2Isabelle
  imports Main "HOL-Library.Word"
begin

section \<open>Data model\<close>

type_synonym bytes = "8 word list"

text \<open>An exception caught by \<^verbatim>\<open>except Exception as e\<close> is represented by \<^verbatim>\<open>str(e)\<close>.\<close>

type_synonym exn = string

text \<open>
  Modelled from the spec: the class \<^verbatim>\<open>File\<close> is imported from the plugin host library
  and is not part of the repository. The spec's InputFile is
  \<^verbatim>\<open>{filename: string, blob: bytes}\<close>.
\<close>

record input_file =
  filename :: string
  blob :: bytes

datatype json = JString string | JObject "(string \<times> json) list"

text \<open>
  Modelled from the spec: the host's ResultMessage, a tagged union
  \<^verbatim>\<open>Text(string) | Blob(bytes, meta) | Json(mapping)\<close>. The meta dict of a blob is an
  association list in the order of the dict literal.
\<close>

datatype message =
  Text string
| Blob bytes "(string \<times> string) list"
| Json json

definition create_text_message :: "string \<Rightarrow> message" where
  "create_text_message s = Text s"

definition create_blob_message :: "bytes \<Rightarrow> (string \<times> string) list \<Rightarrow> message" where
  "create_blob_message b meta = Blob b meta"

definition create_json_message :: "json \<Rightarrow> message" where
  "create_json_message j = Json j"

subsection \<open>The rendering and imaging libraries\<close>

text \<open>
  PyMuPDF and Pillow are external. Their operations are parameters of the model: opening a
  document, loading a page, rendering it, \<^verbatim>\<open>Image.frombytes\<close> and \<^verbatim>\<open>save\<close> are fields that
  return either the exception raised or the value. Reading \<^verbatim>\<open>page_count\<close>, \<^verbatim>\<open>doc.close()\<close>,
  \<^verbatim>\<open>Image.new\<close> and \<^verbatim>\<open>paste\<close> are taken to return normally.
\<close>

record pixmap =
  pix_width :: nat
  pix_height :: nat
  samples :: bytes

datatype page = Page (get_pixmap: "exn + pixmap")

record document =
  page_count :: nat
  load_page :: "nat \<Rightarrow> exn + page"

record fitz_module =
  fitz_open :: "bytes \<Rightarrow> exn + document"

record image =
  width :: nat
  height :: nat
  pixels :: bytes

text \<open>
  The composite image is what the source determines of it: the size given to
  \<^verbatim>\<open>Image.new\<close> and the paste calls made on it, in order, each with the pasted image and
  its box \<^verbatim>\<open>(x, y)\<close>.
\<close>

record canvas =
  canvas_mode :: string
  canvas_width :: nat
  canvas_height :: nat
  pasted :: "(image \<times> nat \<times> nat) list"

record pil_module =
  frombytes :: "string \<Rightarrow> nat \<times> nat \<Rightarrow> bytes \<Rightarrow> exn + image"
  save :: "canvas \<Rightarrow> string \<Rightarrow> exn + bytes"

text \<open>
  The outcome of each import statement: \<open>Inl e\<close> is an \<^verbatim>\<open>ImportError\<close> with
  \<^verbatim>\<open>str(e) = e\<close>, \<open>Inr m\<close> the imported module.
\<close>

record environment =
  import_pymupdf :: "exn + fitz_module"
  import_fitz :: "exn + fitz_module"
  import_PIL_Image :: "exn + pil_module"

text \<open>Calls made on a document handle, in the order they happen.\<close>

datatype event = DocOpen | LoadPage nat | DocClose

section \<open>Python helpers\<close>

text \<open>\<^verbatim>\<open>s.rsplit(sep, 1)\<close>: split once, at the last occurrence of the separator.\<close>

fun split_last :: "char \<Rightarrow> string \<Rightarrow> (string \<times> string) option" where
  "split_last sep [] = None"
| "split_last sep (c # cs) =
     (case split_last sep cs of
        Some (p, q) \<Rightarrow> Some (c # p, q)
      | None \<Rightarrow> (if c = sep then Some ([], cs) else None))"

definition rsplit1 :: "string \<Rightarrow> char \<Rightarrow> string list" where
  "rsplit1 s sep = (case split_last sep s of None \<Rightarrow> [s] | Some (p, q) \<Rightarrow> [p, q])"

text \<open>\<^verbatim>\<open>xs[i]\<close> for \<open>i \<ge> 0\<close>; out of range raises IndexError.\<close>

definition py_getitem :: "'a list \<Rightarrow> nat \<Rightarrow> exn + 'a" where
  "py_getitem xs i = (if i < length xs then Inr (xs ! i) else Inl ''list index out of range'')"

text \<open>\<^verbatim>\<open>max(...)\<close> of an iterable; an empty one raises ValueError.\<close>

fun py_max :: "nat list \<Rightarrow> exn + nat" where
  "py_max [] = Inl ''max() arg is an empty sequence''"
| "py_max (x # xs) = Inr (fold max xs x)"

section \<open>The converter\<close>

text \<open>
  Lines 63 to 67: the page loop over \<^verbatim>\<open>range(page_count)\<close>, appending to \<^verbatim>\<open>images\<close>.
  The result is the list of images or the first exception, with the calls made.
\<close>

fun render_pages ::
  "pil_module \<Rightarrow> document \<Rightarrow> nat list \<Rightarrow> image list \<Rightarrow> (exn + image list) \<times> event list" where
  "render_pages PIL_Image doc [] images = (Inr images, [])"
| "render_pages PIL_Image doc (page_num # rest) images =
     (case load_page doc page_num of
        Inl e \<Rightarrow> (Inl e, [LoadPage page_num])
      | Inr pg \<Rightarrow>
          (case get_pixmap pg of
             Inl e \<Rightarrow> (Inl e, [LoadPage page_num])
           | Inr pix \<Rightarrow>
               (case frombytes PIL_Image ''RGB'' (pix_width pix, pix_height pix) (samples pix) of
                  Inl e \<Rightarrow> (Inl e, [LoadPage page_num])
                | Inr img \<Rightarrow>
                    (case render_pages PIL_Image doc rest (images @ [img]) of
                       (r, evs) \<Rightarrow> (r, LoadPage page_num # evs)))))"

text \<open>
  Lines 64 to 66: the image of the page \<^verbatim>\<open>page_num\<close> of a document, as one iteration of the
  page loop computes it.
\<close>

definition page_image :: "pil_module \<Rightarrow> document \<Rightarrow> nat \<Rightarrow> exn + image" where
  "page_image PIL_Image doc page_num =
     (case load_page doc page_num of
        Inl e \<Rightarrow> Inl e
      | Inr pg \<Rightarrow>
          (case get_pixmap pg of
             Inl e \<Rightarrow> Inl e
           | Inr pix \<Rightarrow>
               frombytes PIL_Image ''RGB'' (pix_width pix, pix_height pix) (samples pix)))"

definition Image_new :: "string \<Rightarrow> nat \<times> nat \<Rightarrow> canvas" where
  "Image_new mode sz =
     \<lparr>canvas_mode = mode, canvas_width = fst sz, canvas_height = snd sz, pasted = []\<rparr>"

definition paste :: "canvas \<Rightarrow> image \<Rightarrow> nat \<times> nat \<Rightarrow> canvas" where
  "paste c img box = c\<lparr>pasted := pasted c @ [(img, box)]\<rparr>"

text \<open>Lines 81 to 84: the paste loop with its running offset.\<close>

fun paste_all :: "image list \<Rightarrow> canvas \<Rightarrow> nat \<Rightarrow> canvas" where
  "paste_all [] combined_image y_offset = combined_image"
| "paste_all (img # imgs) combined_image y_offset =
     paste_all imgs (paste combined_image img (0, y_offset)) (y_offset + height img)"

text \<open>Lines 77 to 84: the composite of the page images.\<close>

definition merge_images :: "image list \<Rightarrow> exn + canvas" where
  "merge_images images =
     (case py_max (map width images) of
        Inl e \<Rightarrow> Inl e
      | Inr total_width \<Rightarrow>
          (let total_height = sum_list (map height images);
               combined_image = Image_new ''RGB'' (total_width, total_height)
           in Inr (paste_all images combined_image 0)))"

text \<open>Lines 95 to 98: the meta dict of the blob message.\<close>

definition blob_meta :: "input_file \<Rightarrow> exn + (string \<times> string) list" where
  "blob_meta f =
     (case py_getitem (rsplit1 (filename f) (CHR ''.'')) 0 of
        Inl e \<Rightarrow> Inl e
      | Inr stem \<Rightarrow> Inr [(''mime_type'', ''image/png''), (''filename'', stem @ ''.png'')])"

text \<open>
  Lines 72 to 99: what follows \<^verbatim>\<open>doc.close()\<close> in the body of the \<^verbatim>\<open>try\<close>.
\<close>

definition emit_images :: "pil_module \<Rightarrow> input_file \<Rightarrow> image list \<Rightarrow> exn + message list" where
  "emit_images PIL_Image f images =
     (if images = [] then Inr [create_text_message (''No pages found in '' @ filename f)]
      else
        (case merge_images images of
           Inl e \<Rightarrow> Inl e
         | Inr combined_image \<Rightarrow>
             (case save PIL_Image combined_image ''PNG'' of
                Inl e \<Rightarrow> Inl e
              | Inr image_bytes \<Rightarrow>
                  (case blob_meta f of
                     Inl e \<Rightarrow> Inl e
                   | Inr meta \<Rightarrow> Inr [create_blob_message image_bytes meta]))))"

text \<open>
  Lines 53 to 99: the body of the \<^verbatim>\<open>try\<close> for one file. Every \<^verbatim>\<open>yield\<close> of the body
  is its last action (line 73 is followed by \<^verbatim>\<open>continue\<close>, line 93 ends the body), so the
  body either raises having yielded nothing, or yields its messages and ends.
\<close>

definition convert ::
  "fitz_module \<Rightarrow> pil_module \<Rightarrow> input_file \<Rightarrow> (exn + message list) \<times> event list" where
  "convert fitz PIL_Image f =
     (case fitz_open fitz (blob f) of
        Inl e \<Rightarrow> (Inl e, [])
      | Inr doc \<Rightarrow>
          (case render_pages PIL_Image doc [0..<page_count doc] [] of
             (Inl e, evs) \<Rightarrow> (Inl e, DocOpen # evs)
           | (Inr images, evs) \<Rightarrow> (emit_images PIL_Image f images, DocOpen # evs @ [DocClose])))"

text \<open>Lines 52 to 107: one iteration of the loop over the files, with its handler.\<close>

definition process_file ::
  "fitz_module \<Rightarrow> pil_module \<Rightarrow> input_file \<Rightarrow> message list \<times> event list" where
  "process_file fitz PIL_Image f =
     (case convert fitz PIL_Image f of
        (Inr msgs, evs) \<Rightarrow> (msgs, evs)
      | (Inl e, evs) \<Rightarrow>
          ([create_text_message (''Error processing '' @ filename f @ '': '' @ e),
            create_json_message (JObject [(filename f, JObject [(''error'', JString e)])])],
           evs))"

fun process_files ::
  "fitz_module \<Rightarrow> pil_module \<Rightarrow> input_file list \<Rightarrow> message list \<times> event list" where
  "process_files fitz PIL_Image [] = ([], [])"
| "process_files fitz PIL_Image (f # fs) =
     (case process_file fitz PIL_Image f of
        (msgs, evs) \<Rightarrow>
          (case process_files fitz PIL_Image fs of
             (msgs', evs') \<Rightarrow> (msgs @ msgs', evs @ evs')))"

text \<open>Lines 36 to 41: \<^verbatim>\<open>import pymupdf\<close>, and on ImportError \<^verbatim>\<open>import fitz\<close>.\<close>

definition resolve_fitz :: "environment \<Rightarrow> exn + fitz_module" where
  "resolve_fitz env =
     (case import_pymupdf env of
        Inr pymupdf \<Rightarrow> Inr pymupdf
      | Inl _ \<Rightarrow> import_fitz env)"

text \<open>
  \<^verbatim>\<open>Pdf2imageTool._invoke\<close>. The argument is \<^verbatim>\<open>tool_parameters.get("files")\<close>: \<open>None\<close>
  when the key is absent or its value is \<^verbatim>\<open>None\<close>, and otherwise a list of files, which is
  what the validation of line 31 accepts. The result is the stream of yielded messages and
  the calls made on document handles.
\<close>

definition invoke :: "environment \<Rightarrow> input_file list option \<Rightarrow> message list \<times> event list" where
  "invoke env tool_files =
     (case tool_files of
        None \<Rightarrow>
          ([create_text_message ''No files provided. Please upload PDF files for processing.''], [])
      | Some files \<Rightarrow>
          (case resolve_fitz env of
             Inl e \<Rightarrow>
               ([create_text_message (''Error: Required library not installed. '' @ e)], [])
           | Inr fitz \<Rightarrow>
               (case import_PIL_Image env of
                  Inl _ \<Rightarrow>
                    ([create_text_message
                        ''Error: Pillow library not installed. Please install it with 'pip install Pillow'.''],
                     [])
                | Inr PIL_Image \<Rightarrow> process_files fitz PIL_Image files)))"

section \<open>An example engine\<close>

text \<open>
  A small concrete engine on which the theorems below are instantiated. A blob's first byte is
  a header; every further byte \<open>w\<close> is one page, \<open>w\<close> wide and \<open>2 * w\<close> high, and a page byte
  \<open>0\<close> is a page that fails to load. The empty blob does not open.
\<close>

definition example_document :: "bytes \<Rightarrow> document" where
  "example_document b =
     \<lparr>page_count = length b - 1,
      load_page = (\<lambda>i.
        if i < length b - 1 then
          (if b ! Suc i = 0 then Inl ''cannot load page''
           else Inr (Page (Inr \<lparr>pix_width = unat (b ! Suc i), pix_height = 2 * unat (b ! Suc i),
                                samples = []\<rparr>)))
        else Inl ''page not in document'')\<rparr>"

definition example_fitz :: fitz_module where
  "example_fitz =
     \<lparr>fitz_open = (\<lambda>b. if b = [] then Inl ''Failed to open stream'' else Inr (example_document b))\<rparr>"

definition example_pil :: pil_module where
  "example_pil =
     \<lparr>frombytes = (\<lambda>mode sz data. Inr \<lparr>width = fst sz, height = snd sz, pixels = data\<rparr>),
      save = (\<lambda>c fmt. Inr [of_nat (canvas_width c), of_nat (canvas_height c)])\<rparr>"

definition example_env :: environment where
  "example_env =
     \<lparr>import_pymupdf = Inl ''No module named pymupdf'',
      import_fitz = Inr example_fitz,
      import_PIL_Image = Inr example_pil\<rparr>"

section \<open>Properties of the converter\<close>

lemmas converter_defs =
  invoke_def resolve_fitz_def process_file_def convert_def emit_images_def merge_images_def
  blob_meta_def py_getitem_def rsplit1_def Image_new_def paste_def
  create_text_message_def create_blob_message_def create_json_message_def

lemmas example_defs =
  example_env_def example_fitz_def example_pil_def example_document_def

lemma process_files_append_fst:
  "fst (process_files fz im (xs @ ys)) = fst (process_files fz im xs) @ fst (process_files fz im ys)"
  by (induction xs) (auto split: prod.splits)

lemma process_files_append_snd:
  "snd (process_files fz im (xs @ ys)) = snd (process_files fz im xs) @ snd (process_files fz im ys)"
  by (induction xs) (auto split: prod.splits)

lemma process_files_concat:
  "fst (process_files fz im fs) = concat (map (\<lambda>f. fst (process_file fz im f)) fs)"
  by (induction fs) (auto split: prod.splits)

lemma render_pages_length:
  "render_pages im doc ns acc = (Inr images, evs) \<Longrightarrow> length images = length acc + length ns"
  by (induction ns arbitrary: acc evs) (auto split: sum.splits prod.splits)

lemma render_pages_order:
  "render_pages im doc ns acc = (Inr images, evs) \<Longrightarrow>
   \<exists>rendered. images = acc @ rendered \<and> map (page_image im doc) ns = map Inr rendered"
proof (induction ns arbitrary: acc evs)
  case Nil
  then show ?case by simp
next
  case (Cons n ns)
  from Cons.prems obtain img evs' where
    img: "page_image im doc n = Inr img" and
    rest: "render_pages im doc ns (acc @ [img]) = (Inr images, evs')"
    by (auto simp: page_image_def split: sum.splits prod.splits)
  from Cons.IH [OF rest] obtain rendered where
    "images = (acc @ [img]) @ rendered" "map (page_image im doc) ns = map Inr rendered"
    by blast
  with img have
    "images = acc @ (img # rendered) \<and>
     map (page_image im doc) (n # ns) = map Inr (img # rendered)"
    by simp
  then show ?case by blast
qed

lemma render_pages_events:
  "render_pages im doc ns acc = (Inr images, evs) \<Longrightarrow> evs = map LoadPage ns"
  by (induction ns arbitrary: acc evs) (auto split: sum.splits prod.splits)

lemma py_max_nonempty: "xs \<noteq> [] \<Longrightarrow> py_max xs = Inr (Max (set xs))"
  by (cases xs) (simp_all add: Max.set_eq_fold [symmetric])

lemma paste_all_size:
  "canvas_width (paste_all imgs c y) = canvas_width c \<and>
   canvas_height (paste_all imgs c y) = canvas_height c \<and>
   canvas_mode (paste_all imgs c y) = canvas_mode c"
  by (induction imgs arbitrary: c y) (simp_all add: paste_def)

lemma paste_all_pasted:
  "pasted (paste_all imgs c y) =
     pasted c @ map (\<lambda>i. (imgs ! i, 0, y + sum_list (map height (take i imgs)))) [0..<length imgs]"
proof (induction imgs arbitrary: c y)
  case Nil
  then show ?case by simp
next
  case (Cons img imgs)
  have step: "map (\<lambda>i. ((img # imgs) ! i, 0, y + sum_list (map height (take i (img # imgs)))))
          [0..<length (img # imgs)] =
        (img, 0, y) # map (\<lambda>i. (imgs ! i, 0, y + height img + sum_list (map height (take i imgs))))
          [0..<length imgs]"
    by (simp add: map_upt_Suc add.assoc del: upt_Suc)
  show ?case
    unfolding step by (simp add: Cons.IH paste_def)
qed

lemma split_last_none: "sep \<notin> set s \<Longrightarrow> split_last sep s = None"
  by (induction s) auto

lemma split_last_at: "sep \<notin> set ext \<Longrightarrow> split_last sep (p @ sep # ext) = Some (p, ext)"
  by (induction p) (auto simp: split_last_none)

lemma invoke_ready:
  "resolve_fitz env = Inr fz \<Longrightarrow> import_PIL_Image env = Inr im \<Longrightarrow>
   invoke env (Some fs) = process_files fz im fs"
  by (simp add: invoke_def)

lemma rsplit1_first:
  "py_getitem (rsplit1 s sep) 0 = Inr (hd (rsplit1 s sep))"
  by (simp add: py_getitem_def rsplit1_def split: option.splits)

lemma blob_meta_eq:
  "blob_meta f =
     Inr [(''mime_type'', ''image/png''),
          (''filename'', hd (rsplit1 (filename f) (CHR ''.'')) @ ''.png'')]"
  by (simp add: blob_meta_def rsplit1_first)

lemma merge_images_nonempty:
  "images \<noteq> [] \<Longrightarrow>
   merge_images images =
     Inr (paste_all images
            (Image_new ''RGB'' (Max (set (map width images)), sum_list (map height images))) 0)"
  by (simp add: merge_images_def py_max_nonempty)

lemma emit_images_empty:
  "emit_images im f [] = Inr [Text (''No pages found in '' @ filename f)]"
  by (simp add: emit_images_def create_text_message_def)

lemma emit_images_nonempty:
  "images \<noteq> [] \<Longrightarrow>
   emit_images im f images =
     (case save im (paste_all images
            (Image_new ''RGB'' (Max (set (map width images)), sum_list (map height images))) 0) ''PNG'' of
        Inl e \<Rightarrow> Inl e
      | Inr b \<Rightarrow> Inr [Blob b [(''mime_type'', ''image/png''),
          (''filename'', hd (rsplit1 (filename f) (CHR ''.'')) @ ''.png'')]])"
  by (simp add: emit_images_def merge_images_nonempty blob_meta_eq create_blob_message_def
        split: sum.splits)

lemma convert_rendered:
  "fitz_open fz (blob f) = Inr doc \<Longrightarrow>
   render_pages im doc [0..<page_count doc] [] = (Inr images, evs) \<Longrightarrow>
   convert fz im f = (emit_images im f images, DocOpen # evs @ [DocClose])"
  by (simp add: convert_def)

lemma process_file_raised:
  "fst (convert fz im f) = Inl e \<Longrightarrow>
   fst (process_file fz im f) =
     [Text (''Error processing '' @ filename f @ '': '' @ e),
      Json (JObject [(filename f, JObject [(''error'', JString e)])])]"
  by (cases "convert fz im f")
     (simp add: process_file_def create_text_message_def create_json_message_def)

lemma process_file_returned:
  "fst (convert fz im f) = Inr msgs \<Longrightarrow> fst (process_file fz im f) = msgs"
  by (cases "convert fz im f") (simp add: process_file_def)

lemma process_files_split:
  "fst (process_files fz im (pre @ f # post)) =
     fst (process_files fz im pre) @ fst (process_file fz im f) @ fst (process_files fz im post)"
  by (simp add: process_files_append_fst split: prod.splits)

lemma convert_returned:
  assumes "fst (convert fz im f) = Inr msgs"
  obtains doc images evs where
    "fitz_open fz (blob f) = Inr doc"
    "render_pages im doc [0..<page_count doc] [] = (Inr images, evs)"
    "length images = page_count doc"
    "emit_images im f images = Inr msgs"
proof (cases "fitz_open fz (blob f)")
  case (Inl e)
  with assms show ?thesis by (simp add: convert_def)
next
  case (Inr doc)
  obtain r evs where r: "render_pages im doc [0..<page_count doc] [] = (r, evs)"
    by (cases "render_pages im doc [0..<page_count doc] []")
  show ?thesis
  proof (cases r)
    case (Inl e)
    with assms Inr r show ?thesis by (simp add: convert_def)
  next
    case images: (Inr images)
    with assms Inr r have "emit_images im f images = Inr msgs"
      by (simp add: convert_def)
    moreover have "length images = page_count doc"
      using render_pages_length [of im doc "[0..<page_count doc]" "[]" images evs] r images
      by simp
    ultimately show ?thesis
      using that Inr r images by simp
  qed
qed

lemma emit_images_returned:
  assumes "emit_images im f images = Inr msgs"
  shows "(images = [] \<and> msgs = [Text (''No pages found in '' @ filename f)]) \<or>
         (images \<noteq> [] \<and> (\<exists>b. msgs = [Blob b [(''mime_type'', ''image/png''),
            (''filename'', hd (rsplit1 (filename f) (CHR ''.'')) @ ''.png'')]]))"
proof (cases "images = []")
  case True
  with assms show ?thesis by (simp add: emit_images_empty)
next
  case False
  with assms show ?thesis
    by (auto simp: emit_images_nonempty split: sum.splits)
qed

lemma process_file_blob:
  assumes "fst (process_file fz im f) = [Blob b meta]"
  shows "meta = [(''mime_type'', ''image/png''),
                 (''filename'', hd (rsplit1 (filename f) (CHR ''.'')) @ ''.png'')]"
proof (cases "fst (convert fz im f)")
  case (Inl e)
  with assms show ?thesis by (simp add: process_file_raised)
next
  case (Inr msgs)
  then have msgs: "msgs = [Blob b meta]"
    using assms by (simp add: process_file_returned)
  from Inr obtain images where "emit_images im f images = Inr msgs"
    by (rule convert_returned)
  from emit_images_returned [OF this] msgs show ?thesis by auto
qed

lemma rsplit1_no_sep: "sep \<notin> set s \<Longrightarrow> rsplit1 s sep = [s]"
  by (simp add: rsplit1_def split_last_none)

lemma rsplit1_at: "sep \<notin> set ext \<Longrightarrow> rsplit1 (p @ sep # ext) sep = [p, ext]"
  by (simp add: rsplit1_def split_last_at)

lemma process_file_converted:
  assumes "fst (convert fz im f) = Inr msgs"
    and "\<And>doc. fitz_open fz (blob f) = Inr doc \<Longrightarrow> 0 < page_count doc"
  shows "\<exists>b. fst (process_file fz im f) =
           [Blob b [(''mime_type'', ''image/png''),
                    (''filename'', hd (rsplit1 (filename f) (CHR ''.'')) @ ''.png'')]]"
proof -
  from assms(1) obtain doc images evs where
    d: "fitz_open fz (blob f) = Inr doc" and
    l: "length images = page_count doc" and
    e: "emit_images im f images = Inr msgs"
    by (rule convert_returned)
  from assms(2) [OF d] l have "images \<noteq> []" by auto
  with emit_images_returned [OF e] assms(1) show ?thesis
    by (auto simp: process_file_returned)
qed

lemma render_pages_no_close:
  "render_pages im doc ns acc = (r, evs) \<Longrightarrow> DocClose \<notin> set evs"
  by (induction ns arbitrary: acc r evs) (auto split: sum.splits prod.splits)

lemma convert_leaks_on_render_error:
  assumes "fitz_open fz (blob f) = Inr doc"
    and "fst (render_pages im doc [0..<page_count doc] []) = Inl e"
  shows "DocOpen \<in> set (snd (process_file fz im f)) \<and>
         DocClose \<notin> set (snd (process_file fz im f))"
proof -
  obtain evs where r: "render_pages im doc [0..<page_count doc] [] = (Inl e, evs)"
    using assms(2) by (cases "render_pages im doc [0..<page_count doc] []") simp
  have "DocClose \<notin> set evs"
    using render_pages_no_close [OF r] .
  then show ?thesis
    using assms(1) r by (simp add: process_file_def convert_def)
qed

lemma convert_closes_when_rendered:
  assumes "fitz_open fz (blob f) = Inr doc"
    and "render_pages im doc [0..<page_count doc] [] = (Inr images, evs)"
  shows "snd (process_file fz im f) = DocOpen # evs @ [DocClose]"
  using assms by (simp add: process_file_def convert_def split: sum.splits)

lemma example_imports:
  "resolve_fitz example_env = Inr example_fitz"
  "import_PIL_Image example_env = Inr example_pil"
  by (simp_all add: resolve_fitz_def example_env_def)

section \<open>The claims\<close>

text \<open>
  C1 (as amended). When the \<^verbatim>\<open>files\<close> parameter is absent (the key is missing or its value
  is \<^verbatim>\<open>None\<close>), the operation emits exactly one Text message saying that no files were
  provided and ends: no Blob, no Json, and no call on any document, whatever the state of
  the libraries.
\<close>

theorem C1_absent_files:
  "invoke env None =
     ([Text ''No files provided. Please upload PDF files for processing.''], [])"
  by (simp add: invoke_def create_text_message_def)

text \<open>
  C1 as stated also covers the empty list. An empty list is not \<^verbatim>\<open>None\<close>, so it passes the
  check of line 27; with the libraries imported the loop of line 51 runs zero times and
  the stream of messages is empty.
\<close>

theorem C1_empty_list_counterexample:
  "fst (invoke example_env (Some [])) = []"
  by (simp add: converter_defs example_defs)



text \<open>
  C3. For a document that opens, has at least one page and whose pages all render: the
  list \<open>images\<close> of the page loop holds the image of page \<open>i\<close> of the document at index \<open>i\<close>,
  for every page, and the pages were loaded in document order; the composite handed to
  the PNG encoder is as wide as the widest page and as high as the sum of the page heights;
  its paste calls are the pages in document order, page \<open>i\<close> at \<open>x = 0\<close> and \<open>y\<close> the sum of
  the heights of the pages before it, so the image of page \<open>0\<close> is the first paste, at
  \<open>(0, 0)\<close>; and the Blob of the file is the encoding of this composite.
\<close>

theorem C3_composite_geometry:
  assumes "fitz_open fz (blob f) = Inr doc"
    and "render_pages im doc [0..<page_count doc] [] = (Inr images, evs)"
    and "0 < page_count doc"
  shows "\<exists>c. merge_images images = Inr c \<and>
           length images = page_count doc \<and>
           map (page_image im doc) [0..<page_count doc] = map Inr images \<and>
           evs = map LoadPage [0..<page_count doc] \<and>
           page_image im doc 0 = Inr (fst (hd (pasted c))) \<and>
           canvas_width c = Max (set (map width images)) \<and>
           canvas_height c = sum_list (map height images) \<and>
           pasted c =
             map (\<lambda>i. (images ! i, 0, sum_list (map height (take i images))))
               [0..<length images] \<and>
           hd (pasted c) = (hd images, 0, 0) \<and>
           fst (convert fz im f) =
             (case save im c ''PNG'' of
                Inl e \<Rightarrow> Inl e
              | Inr b \<Rightarrow>
                  Inr [Blob b [(''mime_type'', ''image/png''),
                     (''filename'', hd (rsplit1 (filename f) (CHR ''.'')) @ ''.png'')]])"
proof -
  define c where
    "c = paste_all images
           (Image_new ''RGB'' (Max (set (map width images)), sum_list (map height images))) 0"
  have len: "length images = page_count doc"
    using render_pages_length [OF assms(2)] by simp
  with assms(3) have ne: "images \<noteq> []" by auto
  have m: "merge_images images = Inr c"
    unfolding c_def by (rule merge_images_nonempty [OF ne])
  have w: "canvas_width c = Max (set (map width images))"
    and h: "canvas_height c = sum_list (map height images)"
    unfolding c_def by (simp_all add: paste_all_size Image_new_def)
  have p: "pasted c =
             map (\<lambda>i. (images ! i, 0, sum_list (map height (take i images))))
               [0..<length images]"
    unfolding c_def by (simp add: paste_all_pasted Image_new_def)
  have "0 < length images" using ne by simp
  then have top: "hd (pasted c) = (hd images, 0, 0)"
    unfolding p by (simp add: hd_map hd_conv_nth upt_conv_Cons del: upt_Suc)
  have ord: "map (page_image im doc) [0..<page_count doc] = map Inr images"
    using render_pages_order [OF assms(2)] by auto
  have ev: "evs = map LoadPage [0..<page_count doc]"
    by (rule render_pages_events [OF assms(2)])
  have "map (page_image im doc) [0..<page_count doc] ! 0 = map Inr images ! 0"
    by (simp only: ord)
  with assms(3) len have "page_image im doc 0 = Inr (images ! 0)"
    by simp
  with top ne have first: "page_image im doc 0 = Inr (fst (hd (pasted c)))"
    by (simp add: hd_conv_nth)
  have "fst (convert fz im f) = emit_images im f images"
    using convert_rendered [OF assms(1,2)] by simp
  then have out: "fst (convert fz im f) =
             (case save im c ''PNG'' of
                Inl e \<Rightarrow> Inl e
              | Inr b \<Rightarrow>
                  Inr [Blob b [(''mime_type'', ''image/png''),
                     (''filename'', hd (rsplit1 (filename f) (CHR ''.'')) @ ''.png'')]])"
    unfolding c_def by (simp add: emit_images_nonempty [OF ne])
  from m len ord ev first w h p top out show ?thesis by blast
qed

text \<open>C3 on a document of three pages of sizes 3 x 6, 5 x 10 and 1 x 2.\<close>

theorem C3_composite_geometry_witness:
  "\<exists>c. merge_images
          [\<lparr>width = 3, height = 6, pixels = []\<rparr>,
           \<lparr>width = 5, height = 10, pixels = []\<rparr>,
           \<lparr>width = 1, height = 2, pixels = []\<rparr>] = Inr c \<and>
        map (page_image example_pil (example_document [1, 3, 5, 1])) [0, 1, 2] =
          [Inr \<lparr>width = 3, height = 6, pixels = []\<rparr>,
           Inr \<lparr>width = 5, height = 10, pixels = []\<rparr>,
           Inr \<lparr>width = 1, height = 2, pixels = []\<rparr>] \<and>
        page_image example_pil (example_document [1, 3, 5, 1]) 0 = Inr (fst (hd (pasted c))) \<and>
        canvas_width c = 5 \<and> canvas_height c = 18 \<and>
        pasted c =
          [(\<lparr>width = 3, height = 6, pixels = []\<rparr>, 0, 0),
           (\<lparr>width = 5, height = 10, pixels = []\<rparr>, 0, 6),
           (\<lparr>width = 1, height = 2, pixels = []\<rparr>, 0, 16)] \<and>
        fst (convert example_fitz example_pil \<lparr>filename = ''scan.v2.pdf'', blob = [1, 3, 5, 1]\<rparr>) =
          Inr [Blob [5, 18] [(''mime_type'', ''image/png''), (''filename'', ''scan.v2.png'')]]"
proof -
  let ?f = "\<lparr>filename = ''scan.v2.pdf'', blob = [1, 3, 5, 1]\<rparr>"
  let ?images = "[\<lparr>width = 3, height = 6, pixels = []\<rparr>,
                  \<lparr>width = 5, height = 10, pixels = []\<rparr>,
                  \<lparr>width = 1, height = 2, pixels = []\<rparr>]"
  have h1: "fitz_open example_fitz (blob ?f) = Inr (example_document [1, 3, 5, 1])"
    by (simp add: example_defs)
  have h2: "render_pages example_pil (example_document [1, 3, 5, 1])
              [0..<page_count (example_document [1, 3, 5, 1])] [] =
            (Inr ?images, [LoadPage 0, LoadPage 1, LoadPage 2])"
    by (simp add: example_defs)
  have h3: "0 < page_count (example_document [1, 3, 5, 1])"
    by (simp add: example_defs)
  from C3_composite_geometry [OF h1 h2 h3]
  obtain c where c: "merge_images ?images = Inr c"
    "canvas_width c = Max (set (map width ?images))"
    "canvas_height c = sum_list (map height ?images)"
    "pasted c = map (\<lambda>i. (?images ! i, 0, sum_list (map height (take i ?images))))
                  [0..<length ?images]"
    "fst (convert example_fitz example_pil ?f) =
       (case save example_pil c ''PNG'' of
          Inl e \<Rightarrow> Inl e
        | Inr b \<Rightarrow>
            Inr [Blob b [(''mime_type'', ''image/png''),
               (''filename'', hd (rsplit1 (filename ?f) (CHR ''.'')) @ ''.png'')]])"
    "map (page_image example_pil (example_document [1, 3, 5, 1]))
       [0..<page_count (example_document [1, 3, 5, 1])] = map Inr ?images"
    "page_image example_pil (example_document [1, 3, 5, 1]) 0 = Inr (fst (hd (pasted c)))"
    by blast
  have pc: "[0..<page_count (example_document [1, 3, 5, 1])] = [0, 1, 2]"
    by (simp add: example_defs upt_conv_Cons)
  have pages: "map (page_image example_pil (example_document [1, 3, 5, 1])) [0, 1, 2] =
          [Inr \<lparr>width = 3, height = 6, pixels = []\<rparr>,
           Inr \<lparr>width = 5, height = 10, pixels = []\<rparr>,
           Inr \<lparr>width = 1, height = 2, pixels = []\<rparr>]"
    using c(6) unfolding pc by simp
  have w: "canvas_width c = 5" using c(2) by simp
  have h: "canvas_height c = 18" using c(3) by simp
  have p: "pasted c =
          [(\<lparr>width = 3, height = 6, pixels = []\<rparr>, 0, 0),
           (\<lparr>width = 5, height = 10, pixels = []\<rparr>, 0, 6),
           (\<lparr>width = 1, height = 2, pixels = []\<rparr>, 0, 16)]"
    using c(4) by (simp add: upt_conv_Cons numeral_3_eq_3)
  have out: "fst (convert example_fitz example_pil ?f) =
          Inr [Blob [5, 18] [(''mime_type'', ''image/png''), (''filename'', ''scan.v2.png'')]]"
    using c(5) w h by (simp add: example_pil_def rsplit1_def)
  show ?thesis
    by (rule exI [of _ c]) (intro conjI c(1) pages c(7) w h p out)
qed

text \<open>
  C4 says that \<^verbatim>\<open>doc.close()\<close> is called on the failure path as well. The call of line 70
  is inside the \<^verbatim>\<open>try\<close>, after the page loop, with no \<^verbatim>\<open>finally\<close>: when a page raises,
  control goes to the handler of line 101 and the document is never closed. Here the
  document opens, page 0 renders and page 1 fails to load; the file yields the Text and
  Json of a failure and the calls on the document end without \<open>DocClose\<close>.
\<close>

theorem C4_close_skipped_when_page_raises:
  "fitz_open example_fitz [1, 3, 0] = Inr (example_document [1, 3, 0]) \<and>
   process_file example_fitz example_pil \<lparr>filename = ''bad.pdf'', blob = [1, 3, 0]\<rparr> =
     ([Text ''Error processing bad.pdf: cannot load page'',
       Json (JObject [(''bad.pdf'', JObject [(''error'', JString ''cannot load page'')])])],
      [DocOpen, LoadPage 0, LoadPage 1])"
  by (simp add: converter_defs example_defs)

text \<open>
  C5. With both libraries imported, a file whose PDF opens with zero pages yields exactly
  one Text message \<^verbatim>\<open>No pages found in {filename}\<close>, no Blob and no Json, and the files
  after it are processed as they are on their own.
\<close>

theorem C5_zero_pages:
  assumes "resolve_fitz env = Inr fz" and "import_PIL_Image env = Inr im"
    and "fitz_open fz (blob f) = Inr doc" and "page_count doc = 0"
  shows "fst (process_file fz im f) = [Text (''No pages found in '' @ filename f)] \<and>
         fst (invoke env (Some (pre @ f # post))) =
           fst (invoke env (Some pre)) @
           [Text (''No pages found in '' @ filename f)] @
           fst (invoke env (Some post))"
proof -
  have "convert fz im f = (emit_images im f [], [DocOpen, DocClose])"
    using assms(3,4) by (simp add: convert_def)
  then have one: "fst (process_file fz im f) = [Text (''No pages found in '' @ filename f)]"
    by (simp add: process_file_returned emit_images_empty)
  then show ?thesis
    using assms(1,2) by (simp add: invoke_ready process_files_split)
qed

text \<open>C5 on a batch of three files whose second file has no page.\<close>

theorem C5_zero_pages_witness:
  "fst (invoke example_env
     (Some [\<lparr>filename = ''a.pdf'', blob = [1, 3]\<rparr>,
            \<lparr>filename = ''empty.pdf'', blob = [1]\<rparr>,
            \<lparr>filename = ''c.pdf'', blob = [1, 4]\<rparr>])) =
   [Blob [3, 6] [(''mime_type'', ''image/png''), (''filename'', ''a.png'')],
    Text ''No pages found in empty.pdf'',
    Blob [4, 8] [(''mime_type'', ''image/png''), (''filename'', ''c.png'')]]"
proof -
  have h3: "fitz_open example_fitz (blob \<lparr>filename = ''empty.pdf'', blob = [1]\<rparr>) =
              Inr (example_document [1])"
    by (simp add: example_defs)
  have h4: "page_count (example_document [1]) = 0"
    by (simp add: example_defs)
  have pre: "fst (invoke example_env (Some [\<lparr>filename = ''a.pdf'', blob = [1, 3]\<rparr>])) =
               [Blob [3, 6] [(''mime_type'', ''image/png''), (''filename'', ''a.png'')]]"
    by (simp add: converter_defs example_defs)
  have post: "fst (invoke example_env (Some [\<lparr>filename = ''c.pdf'', blob = [1, 4]\<rparr>])) =
               [Blob [4, 8] [(''mime_type'', ''image/png''), (''filename'', ''c.png'')]]"
    by (simp add: converter_defs example_defs)
  show ?thesis
    using C5_zero_pages [OF example_imports h3 h4,
        of "[\<lparr>filename = ''a.pdf'', blob = [1, 3]\<rparr>]" "[\<lparr>filename = ''c.pdf'', blob = [1, 4]\<rparr>]"]
    by (simp add: pre post)
qed

text \<open>
  C6. When a file yields a Blob, the \<^verbatim>\<open>filename\<close> of its meta is the original filename
  with the text after the last \<^verbatim>\<open>.\<close> and that dot replaced by \<^verbatim>\<open>.png\<close>: a name
  \<open>p @ ''.'' @ ext\<close> with no dot in \<open>ext\<close> gives \<open>p @ ''.png''\<close>. In particular
  \<^verbatim>\<open>report.pdf\<close> gives \<^verbatim>\<open>report.png\<close> and \<^verbatim>\<open>scan.v2.pdf\<close> gives \<^verbatim>\<open>scan.v2.png\<close>.
\<close>

theorem C6_blob_filename:
  assumes "fst (process_file fz im f) = [Blob b meta]"
  shows "(\<forall>p ext. filename f = p @ ''.'' @ ext \<and> CHR ''.'' \<notin> set ext \<longrightarrow>
            map_of meta ''filename'' = Some (p @ ''.png'')) \<and>
         (filename f = ''report.pdf'' \<longrightarrow> map_of meta ''filename'' = Some ''report.png'') \<and>
         (filename f = ''scan.v2.pdf'' \<longrightarrow> map_of meta ''filename'' = Some ''scan.v2.png'')"
proof -
  note meta = process_file_blob [OF assms]
  have general: "map_of meta ''filename'' = Some (p @ ''.png'')"
    if "filename f = p @ ''.'' @ ext" and "CHR ''.'' \<notin> set ext" for p ext
    using that meta rsplit1_at [of "CHR ''.''" ext p] by simp
  have "map_of meta ''filename'' = Some ''report.png''" if "filename f = ''report.pdf''"
    using general [of "''report''" "''pdf''"] that by simp
  moreover have "map_of meta ''filename'' = Some ''scan.v2.png''" if "filename f = ''scan.v2.pdf''"
    using general [of "''scan.v2''" "''pdf''"] that by simp
  ultimately show ?thesis using general by blast
qed

text \<open>C6 on two converted files, named \<^verbatim>\<open>scan.v2.pdf\<close> and \<^verbatim>\<open>report.pdf\<close>.\<close>

theorem C6_blob_filename_witness:
  "fst (process_file example_fitz example_pil \<lparr>filename = ''scan.v2.pdf'', blob = [1, 3, 5]\<rparr>) =
     [Blob [5, 16] [(''mime_type'', ''image/png''), (''filename'', ''scan.v2.png'')]] \<and>
   map_of [(''mime_type'', ''image/png''), (''filename'', ''scan.v2.png'')] ''filename'' =
     Some ''scan.v2.png'' \<and>
   fst (process_file example_fitz example_pil \<lparr>filename = ''report.pdf'', blob = [1, 4]\<rparr>) =
     [Blob [4, 8] [(''mime_type'', ''image/png''), (''filename'', ''report.png'')]] \<and>
   map_of [(''mime_type'', ''image/png''), (''filename'', ''report.png'')] ''filename'' =
     Some ''report.png''"
proof -
  have s: "fst (process_file example_fitz example_pil
                 \<lparr>filename = ''scan.v2.pdf'', blob = [1, 3, 5]\<rparr>) =
     [Blob [5, 16] [(''mime_type'', ''image/png''), (''filename'', ''scan.v2.png'')]]"
    by (simp add: converter_defs example_defs)
  have r: "fst (process_file example_fitz example_pil
                 \<lparr>filename = ''report.pdf'', blob = [1, 4]\<rparr>) =
     [Blob [4, 8] [(''mime_type'', ''image/png''), (''filename'', ''report.png'')]]"
    by (simp add: converter_defs example_defs)
  from C6_blob_filename [OF s] C6_blob_filename [OF r] s r show ?thesis
    by simp
qed

text \<open>
  C7. With both libraries imported, when no file of the list raises and every document
  has at least one page, the stream of messages is exactly one Blob per file, in the order
  of the files, each with \<^verbatim>\<open>mime_type\<close> \<^verbatim>\<open>image/png\<close> and the \<^verbatim>\<open>filename\<close> of its
  file.
\<close>

theorem C7_one_blob_per_file:
  assumes "resolve_fitz env = Inr fz" and "import_PIL_Image env = Inr im"
    and "\<forall>f \<in> set files.
           (\<exists>msgs. fst (convert fz im f) = Inr msgs) \<and>
           (\<forall>doc. fitz_open fz (blob f) = Inr doc \<longrightarrow> 0 < page_count doc)"
  shows "\<exists>bs. length bs = length files \<and>
           fst (invoke env (Some files)) =
             map2 (\<lambda>f b. Blob b [(''mime_type'', ''image/png''),
                      (''filename'', hd (rsplit1 (filename f) (CHR ''.'')) @ ''.png'')])
               files bs"
proof -
  have "\<exists>bs. length bs = length files \<and>
           fst (process_files fz im files) =
             map2 (\<lambda>f b. Blob b [(''mime_type'', ''image/png''),
                      (''filename'', hd (rsplit1 (filename f) (CHR ''.'')) @ ''.png'')])
               files bs"
    using assms(3)
  proof (induction files)
    case Nil
    then show ?case by simp
  next
    case (Cons f fs)
    from Cons.prems obtain msgs where "fst (convert fz im f) = Inr msgs"
      by auto
    moreover from Cons.prems
    have "\<And>doc. fitz_open fz (blob f) = Inr doc \<Longrightarrow> 0 < page_count doc"
      by simp
    ultimately obtain b where
      b: "fst (process_file fz im f) =
            [Blob b [(''mime_type'', ''image/png''),
                     (''filename'', hd (rsplit1 (filename f) (CHR ''.'')) @ ''.png'')]]"
      using process_file_converted by blast
    from Cons obtain bs where
      bs: "length bs = length fs"
        "fst (process_files fz im fs) =
           map2 (\<lambda>f b. Blob b [(''mime_type'', ''image/png''),
                    (''filename'', hd (rsplit1 (filename f) (CHR ''.'')) @ ''.png'')])
             fs bs"
      by auto
    have "fst (process_files fz im (f # fs)) =
            fst (process_file fz im f) @ fst (process_files fz im fs)"
      by (simp split: prod.splits)
    with b bs have
      "length (b # bs) = length (f # fs) \<and>
       fst (process_files fz im (f # fs)) =
         map2 (\<lambda>f b. Blob b [(''mime_type'', ''image/png''),
                  (''filename'', hd (rsplit1 (filename f) (CHR ''.'')) @ ''.png'')])
           (f # fs) (b # bs)"
      by simp
    then show ?case by blast
  qed
  then show ?thesis
    using assms(1,2) by (simp add: invoke_ready)
qed

text \<open>C7 on a batch of two files, of one page and of two pages.\<close>

theorem C7_one_blob_per_file_witness:
  "(\<exists>bs. length bs = length [\<lparr>filename = ''a.pdf'', blob = [1, 3]\<rparr>,
                                \<lparr>filename = ''c.pdf'', blob = [1, 4, 2]\<rparr>] \<and>
      fst (invoke example_env (Some [\<lparr>filename = ''a.pdf'', blob = [1, 3]\<rparr>,
                                     \<lparr>filename = ''c.pdf'', blob = [1, 4, 2]\<rparr>])) =
        map2 (\<lambda>f b. Blob b [(''mime_type'', ''image/png''),
                 (''filename'', hd (rsplit1 (filename f) (CHR ''.'')) @ ''.png'')])
          [\<lparr>filename = ''a.pdf'', blob = [1, 3]\<rparr>, \<lparr>filename = ''c.pdf'', blob = [1, 4, 2]\<rparr>] bs) \<and>
   fst (invoke example_env (Some [\<lparr>filename = ''a.pdf'', blob = [1, 3]\<rparr>,
                                  \<lparr>filename = ''c.pdf'', blob = [1, 4, 2]\<rparr>])) =
     [Blob [3, 6] [(''mime_type'', ''image/png''), (''filename'', ''a.png'')],
      Blob [4, 12] [(''mime_type'', ''image/png''), (''filename'', ''c.png'')]]"
proof -
  have h3: "\<forall>f \<in> set [\<lparr>filename = ''a.pdf'', blob = [1, 3]\<rparr>,
                       \<lparr>filename = ''c.pdf'', blob = [1, 4, 2]\<rparr>].
           (\<exists>msgs. fst (convert example_fitz example_pil f) = Inr msgs) \<and>
           (\<forall>doc. fitz_open example_fitz (blob f) = Inr doc \<longrightarrow> 0 < page_count doc)"
    by (auto simp: converter_defs example_defs)
  have v: "fst (invoke example_env (Some [\<lparr>filename = ''a.pdf'', blob = [1, 3]\<rparr>,
                                  \<lparr>filename = ''c.pdf'', blob = [1, 4, 2]\<rparr>])) =
     [Blob [3, 6] [(''mime_type'', ''image/png''), (''filename'', ''a.png'')],
      Blob [4, 12] [(''mime_type'', ''image/png''), (''filename'', ''c.png'')]]"
    by (simp add: converter_defs example_defs)
  from C7_one_blob_per_file [OF example_imports h3] v show ?thesis
    by blast
qed

text \<open>
  C8 (as amended). When a list of files is given and a library is missing, the operation
  emits a single Text message naming the missing library and ends without a call on any
  document: when both \<^verbatim>\<open>import pymupdf\<close> and \<^verbatim>\<open>import fitz\<close> fail, the message of line
  110 with the text of the second ImportError; when the rendering library is imported and
  \<^verbatim>\<open>from PIL import Image\<close> fails, the message of line 46.
\<close>

theorem C8_missing_dependency:
  "(import_pymupdf env = Inl e1 \<and> import_fitz env = Inl e2 \<longrightarrow>
      invoke env (Some files) =
        ([Text (''Error: Required library not installed. '' @ e2)], [])) \<and>
   (resolve_fitz env = Inr fz \<and> import_PIL_Image env = Inl e3 \<longrightarrow>
      invoke env (Some files) =
        ([Text ''Error: Pillow library not installed. Please install it with 'pip install Pillow'.''],
         []))"
  by (simp add: invoke_def resolve_fitz_def create_text_message_def)

text \<open>C8 (as amended) in an environment without PyMuPDF and in one without Pillow.\<close>

theorem C8_missing_dependency_witness:
  "invoke \<lparr>import_pymupdf = Inl ''No module named pymupdf'',
           import_fitz = Inl ''No module named fitz'',
           import_PIL_Image = Inr example_pil\<rparr>
      (Some [\<lparr>filename = ''a.pdf'', blob = [1, 3]\<rparr>]) =
     ([Text ''Error: Required library not installed. No module named fitz''], []) \<and>
   invoke \<lparr>import_pymupdf = Inr example_fitz,
           import_fitz = Inl ''No module named fitz'',
           import_PIL_Image = Inl ''No module named PIL''\<rparr>
      (Some [\<lparr>filename = ''a.pdf'', blob = [1, 3]\<rparr>]) =
     ([Text ''Error: Pillow library not installed. Please install it with 'pip install Pillow'.''],
      [])"
  using
    C8_missing_dependency [of
      "\<lparr>import_pymupdf = Inl ''No module named pymupdf'',
        import_fitz = Inl ''No module named fitz'',
        import_PIL_Image = Inr example_pil\<rparr>"
      "''No module named pymupdf''" "''No module named fitz''"
      "[\<lparr>filename = ''a.pdf'', blob = [1, 3]\<rparr>]"]
    C8_missing_dependency [of
      "\<lparr>import_pymupdf = Inr example_fitz,
        import_fitz = Inl ''No module named fitz'',
        import_PIL_Image = Inl ''No module named PIL''\<rparr>"
      _ _ "[\<lparr>filename = ''a.pdf'', blob = [1, 3]\<rparr>]" example_fitz "''No module named PIL''"]
  by (simp add: resolve_fitz_def)

text \<open>
  C8 as stated covers every invocation. The check of line 27 comes before the imports:
  without the \<^verbatim>\<open>files\<close> parameter and with no library installed, the single Text message
  is the one about the missing files, which says nothing of a missing library.
\<close>

theorem C8_absent_files_counterexample:
  "fst (invoke \<lparr>import_pymupdf = Inl ''No module named pymupdf'',
                import_fitz = Inl ''No module named fitz'',
                import_PIL_Image = Inl ''No module named PIL''\<rparr> None) =
     [Text ''No files provided. Please upload PDF files for processing.'']"
  by (simp add: invoke_def create_text_message_def)

text \<open>
  C9. When a file whose filename has no \<^verbatim>\<open>.\<close> yields a Blob, the \<^verbatim>\<open>filename\<close> of its meta
  is the whole original filename followed by \<^verbatim>\<open>.png\<close>.
\<close>

theorem C9_no_dot_keeps_name:
  assumes "fst (process_file fz im f) = [Blob b meta]"
    and "CHR ''.'' \<notin> set (filename f)"
  shows "map_of meta ''filename'' = Some (filename f @ ''.png'')"
  using process_file_blob [OF assms(1)] rsplit1_no_sep [OF assms(2)] by simp

text \<open>C9 on a converted file named \<^verbatim>\<open>report\<close>.\<close>

theorem C9_no_dot_keeps_name_witness:
  "fst (process_file example_fitz example_pil \<lparr>filename = ''report'', blob = [1, 4]\<rparr>) =
     [Blob [4, 8] [(''mime_type'', ''image/png''), (''filename'', ''report.png'')]] \<and>
   map_of [(''mime_type'', ''image/png''), (''filename'', ''report.png'')] ''filename'' =
     Some (''report'' @ ''.png'')"
proof -
  have s: "fst (process_file example_fitz example_pil \<lparr>filename = ''report'', blob = [1, 4]\<rparr>) =
     [Blob [4, 8] [(''mime_type'', ''image/png''), (''filename'', ''report.png'')]]"
    by (simp add: converter_defs example_defs)
  have d: "CHR ''.'' \<notin> set (filename \<lparr>filename = ''report'', blob = [1, 4]\<rparr>)"
    by simp
  from C9_no_dot_keeps_name [OF s d] s show ?thesis
    by simp
qed

text \<open>
  C10. The messages of one file are exactly one Blob, or exactly the Text of a document
  without pages, or the Text of a failure followed by its Json; no file yields both a Blob
  and a Json; and the stream of a list of files is the concatenation of the messages of
  its files, in order.
\<close>

theorem C10_message_shapes:
  "((\<exists>b. fst (process_file fz im f) =
          [Blob b [(''mime_type'', ''image/png''),
                   (''filename'', hd (rsplit1 (filename f) (CHR ''.'')) @ ''.png'')]]) \<or>
    fst (process_file fz im f) = [Text (''No pages found in '' @ filename f)] \<or>
    (\<exists>e. fst (process_file fz im f) =
          [Text (''Error processing '' @ filename f @ '': '' @ e),
           Json (JObject [(filename f, JObject [(''error'', JString e)])])])) \<and>
   \<not> (\<exists>b meta j. Blob b meta \<in> set (fst (process_file fz im f)) \<and>
                  Json j \<in> set (fst (process_file fz im f))) \<and>
   fst (process_files fz im fs) = concat (map (\<lambda>f. fst (process_file fz im f)) fs)"
proof -
  have shape:
    "(\<exists>b. fst (process_file fz im f) =
          [Blob b [(''mime_type'', ''image/png''),
                   (''filename'', hd (rsplit1 (filename f) (CHR ''.'')) @ ''.png'')]]) \<or>
    fst (process_file fz im f) = [Text (''No pages found in '' @ filename f)] \<or>
    (\<exists>e. fst (process_file fz im f) =
          [Text (''Error processing '' @ filename f @ '': '' @ e),
           Json (JObject [(filename f, JObject [(''error'', JString e)])])])"
  proof (cases "fst (convert fz im f)")
    case (Inl e)
    then show ?thesis by (simp add: process_file_raised)
  next
    case (Inr msgs)
    then obtain images where "emit_images im f images = Inr msgs"
      by (rule convert_returned)
    from emit_images_returned [OF this] Inr show ?thesis
      by (auto simp: process_file_returned)
  qed
  then have "\<not> (\<exists>b meta j. Blob b meta \<in> set (fst (process_file fz im f)) \<and>
                  Json j \<in> set (fst (process_file fz im f)))"
    by auto
  with shape show ?thesis
    by (simp add: process_files_concat)
qed

end
